theory Spec2Isabelle
  imports Main
begin

section \<open>Python values\<close>

text \<open>
  The stat calculator of \<^verbatim>\<open>services/stat_calculator.py\<close> works on what
  \<^verbatim>\<open>json.loads\<close> returns: \<^verbatim>\<open>None\<close>, booleans, unbounded integers, floats,
  strings, lists and dictionaries with string keys. A Python \<^verbatim>\<open>str\<close> is modelled by the
  bytes of its UTF-8 encoding, so the Korean literals of the source are written byte by
  byte; the code only concatenates strings, compares them and tests them for emptiness,
  which the encoding preserves. A dictionary is an association list in insertion order
  with distinct keys.

  A float is represented by a decimal numeral that rounds to it: \<open>Dec s m e\<close> is the
  double nearest to \<open>(-1)\<^sup>s \<sqdot> m \<sqdot> 10\<^sup>e\<close>.
\<close>

datatype pyfloat = Dec bool nat int | Inf bool | NaN

datatype pyval =
    PyNone
  | PyBool bool
  | PyInt int
  | PyFloat pyfloat
  | PyStr string
  | PyList "pyval list"
  | PyDict "(string \<times> pyval) list"

type_synonym pydict = "(string \<times> pyval) list"

text \<open>
  Exceptions are values. The handler of \<^verbatim>\<open>analyze_conversation\<close> tells
  \<^verbatim>\<open>json.JSONDecodeError\<close> and \<^verbatim>\<open>KeyError\<close> from everything else;
  \<^verbatim>\<open>AttributeError\<close> is what a method call on a value of the wrong type raises, and
  \<open>OtherError name\<close> stands for any other exception class (a transport failure of the
  oracle, \<^verbatim>\<open>RecursionError\<close>, ...). The string of \<open>Exn\<close> is \<^verbatim>\<open>str(e)\<close>.
\<close>

datatype exn_kind = JSONDecodeError | KeyError | AttributeError | OtherError string

datatype exn = Exn exn_kind string

fun kind :: "exn \<Rightarrow> exn_kind" where
  "kind (Exn k m) = k"

fun type_name :: "exn_kind \<Rightarrow> string" where
  "type_name JSONDecodeError = ''JSONDecodeError''"
| "type_name KeyError = ''KeyError''"
| "type_name AttributeError = ''AttributeError''"
| "type_name (OtherError name) = name"

fun py_type :: "pyval \<Rightarrow> string" where
  "py_type PyNone = ''NoneType''"
| "py_type (PyBool b) = ''bool''"
| "py_type (PyInt i) = ''int''"
| "py_type (PyFloat f) = ''float''"
| "py_type (PyStr s) = ''str''"
| "py_type (PyList xs) = ''list''"
| "py_type (PyDict d) = ''dict''"

definition no_attribute :: "pyval \<Rightarrow> string \<Rightarrow> exn" where
  "no_attribute v attr =
     Exn AttributeError
       ([CHR 0x27] @ py_type v @ [CHR 0x27] @ '' object has no attribute '' @
        [CHR 0x27] @ attr @ [CHR 0x27])"

text \<open>\<^verbatim>\<open>obj.get(key, default)\<close>: only a dictionary has the method.\<close>

fun py_get :: "pyval \<Rightarrow> string \<Rightarrow> pyval \<Rightarrow> exn + pyval" where
  "py_get (PyDict d) key dflt = Inr (case map_of d key of None \<Rightarrow> dflt | Some v \<Rightarrow> v)"
| "py_get v key dflt = Inl (no_attribute v ''get'')"

text \<open>\<^verbatim>\<open>obj.items()\<close>: only a dictionary has the method.\<close>

fun py_items :: "pyval \<Rightarrow> exn + pydict" where
  "py_items (PyDict d) = Inr d"
| "py_items v = Inl (no_attribute v ''items'')"

text \<open>
  \<^verbatim>\<open>v != 0\<close>. Numbers compare by value across \<^verbatim>\<open>bool\<close>, \<^verbatim>\<open>int\<close> and
  \<^verbatim>\<open>float\<close> (\<^verbatim>\<open>False == 0\<close> and \<^verbatim>\<open>0.0 == 0\<close> hold); a value of any other
  type is never equal to \<^verbatim>\<open>0\<close>. A decimal numeral rounds to the double zero when its
  magnitude is at most \<open>2\<^sup>-\<^sup>1\<^sup>0\<^sup>7\<^sup>5\<close>, half of the least positive double.
\<close>

fun float_eq_zero :: "pyfloat \<Rightarrow> bool" where
  "float_eq_zero (Dec s m e) = (m = 0 \<or> (e < 0 \<and> m * 2 ^ 1075 \<le> 10 ^ nat (- e)))"
| "float_eq_zero (Inf s) = False"
| "float_eq_zero NaN = False"

fun ne_zero :: "pyval \<Rightarrow> bool" where
  "ne_zero PyNone = True"
| "ne_zero (PyBool b) = b"
| "ne_zero (PyInt i) = (i \<noteq> 0)"
| "ne_zero (PyFloat f) = (\<not> float_eq_zero f)"
| "ne_zero (PyStr s) = True"
| "ne_zero (PyList xs) = True"
| "ne_zero (PyDict d) = True"

section \<open>json.loads\<close>

text \<open>
  \<^verbatim>\<open>json.loads\<close> belongs to Python's standard library. \<open>analyze_conversation\<close>
  below takes it as a parameter; this section gives the decoder that instantiates the
  parameter at concrete response texts. It follows the scanner of CPython: white space is
  blank, tab, line feed and carriage return; strings are strict (no raw control
  character, the escapes of the grammar, \<^verbatim>\<open>\uXXXX\<close> with surrogate pairs joined); a
  number without fraction and exponent is an \<^verbatim>\<open>int\<close>, any other number a
  \<^verbatim>\<open>float\<close>; \<^verbatim>\<open>NaN\<close>, \<^verbatim>\<open>Infinity\<close> and \<^verbatim>\<open>-Infinity\<close> are accepted; a
  repeated key keeps its first position and its last value. The text is cut into tokens,
  and the tokens are read by a machine with a stack of the containers that are open.
  \<open>None\<close> is \<^verbatim>\<open>JSONDecodeError\<close>. The limits of the interpreter are not part of
  the decoder: CPython raises \<^verbatim>\<open>RecursionError\<close> on a text nested deeper than its
  recursion limit and \<^verbatim>\<open>ValueError\<close> on an integer literal of more than 4300 digits.
  Neither is caught by the handler of \<open>analyze_conversation\<close>; the general statements
  below hold for every decoder, so they cover both as \<open>OtherError\<close>.
\<close>

subsection \<open>Strings\<close>

text \<open>
  \<open>scanstring\<close> reads a string literal from just after its opening quote and gives the
  decoded string with the rest of the text. A code point of a \<^verbatim>\<open>\uXXXX\<close> escape is
  stored in UTF-8; a surrogate that has no partner keeps its three-byte form.
\<close>

definition is_digit :: "char \<Rightarrow> bool" where
  "is_digit c = (c \<in> set ''0123456789'')"

definition digit_value :: "char \<Rightarrow> nat" where
  "digit_value c = of_char c - 48"

definition nat_of_digits :: "string \<Rightarrow> nat" where
  "nat_of_digits ds = foldl (\<lambda>n c. 10 * n + digit_value c) 0 ds"

definition hex_value :: "char \<Rightarrow> nat option" where
  "hex_value c =
     (if c \<in> set ''0123456789'' then Some (of_char c - 48)
      else if c \<in> set ''abcdef'' then Some (of_char c - 87)
      else if c \<in> set ''ABCDEF'' then Some (of_char c - 55)
      else None)"

fun decode_uXXXX :: "string \<Rightarrow> nat option" where
  "decode_uXXXX (a # b # c # d # cs) =
     (case (hex_value a, hex_value b, hex_value c, hex_value d) of
        (Some h1, Some h2, Some h3, Some h4) \<Rightarrow> Some (((h1 * 16 + h2) * 16 + h3) * 16 + h4)
      | _ \<Rightarrow> None)"
| "decode_uXXXX cs = None"

definition utf8 :: "nat \<Rightarrow> string" where
  "utf8 cp =
     (if cp < 0x80 then [char_of cp]
      else if cp < 0x800 then [char_of (0xC0 + cp div 0x40), char_of (0x80 + cp mod 0x40)]
      else if cp < 0x10000 then
        [char_of (0xE0 + cp div 0x1000), char_of (0x80 + cp div 0x40 mod 0x40),
         char_of (0x80 + cp mod 0x40)]
      else
        [char_of (0xF0 + cp div 0x40000), char_of (0x80 + cp div 0x1000 mod 0x40),
         char_of (0x80 + cp div 0x40 mod 0x40), char_of (0x80 + cp mod 0x40)])"

definition backslash :: "char \<Rightarrow> char option" where
  \<open>backslash c =
     (if c = CHR ''"'' then Some (CHR ''"'')
      else if c = CHR 0x5C then Some (CHR 0x5C)
      else if c = CHR ''/'' then Some (CHR ''/'')
      else if c = CHR ''b'' then Some (CHR 0x08)
      else if c = CHR ''f'' then Some (CHR 0x0C)
      else if c = CHR ''n'' then Some (CHR 0x0A)
      else if c = CHR ''r'' then Some (CHR 0x0D)
      else if c = CHR ''t'' then Some (CHR 0x09)
      else None)\<close>

definition cons_chunk :: "string \<Rightarrow> (string \<times> string) option \<Rightarrow> (string \<times> string) option" where
  "cons_chunk chunk r = (case r of None \<Rightarrow> None | Some (s, rest) \<Rightarrow> Some (chunk @ s, rest))"

function scanstring :: "string \<Rightarrow> (string \<times> string) option" where
  "scanstring [] = None"
| \<open>scanstring (c # cs) =
     (if c = CHR ''"'' then Some ([], cs)
      else if c = CHR 0x5C then
        (case cs of
           [] \<Rightarrow> None
         | esc # cs1 \<Rightarrow>
             if esc \<noteq> CHR ''u'' then
               (case backslash esc of
                  None \<Rightarrow> None
                | Some ch \<Rightarrow> cons_chunk [ch] (scanstring cs1))
             else
               (case decode_uXXXX cs1 of
                  None \<Rightarrow> None
                | Some uni \<Rightarrow>
                    if 0xD800 \<le> uni \<and> uni \<le> 0xDBFF \<and> take 2 (drop 4 cs1) = [CHR 0x5C, CHR ''u''] then
                      (case decode_uXXXX (drop 6 cs1) of
                         None \<Rightarrow> None
                       | Some uni2 \<Rightarrow>
                           if 0xDC00 \<le> uni2 \<and> uni2 \<le> 0xDFFF then
                             cons_chunk
                               (utf8 (0x10000 + (uni - 0xD800) * 0x400 + (uni2 - 0xDC00)))
                               (scanstring (drop 10 cs1))
                           else cons_chunk (utf8 uni) (scanstring (drop 4 cs1)))
                    else cons_chunk (utf8 uni) (scanstring (drop 4 cs1))))
      else if of_char c < (0x20 :: nat) then None
      else cons_chunk [c] (scanstring cs))\<close>
  by pat_completeness auto
termination
  by (relation "measure length") auto



subsection \<open>Numbers\<close>

text \<open>
  \<open>match_number\<close> reads the longest prefix of the form
  \<^verbatim>\<open>-?(0|[1-9][0-9]*)(\.[0-9]+)?([eE][-+]?[0-9]+)?\<close>. A fraction needs a digit after the
  point and an exponent a digit after its sign; without one the number ends before them.
\<close>

fun integer_part :: "string \<Rightarrow> (string \<times> string) option" where
  "integer_part [] = None"
| "integer_part (c # cs) =
     (if c = CHR ''0'' then Some ([c], cs)
      else if is_digit c then Some (c # takeWhile is_digit cs, dropWhile is_digit cs)
      else None)"

fun fraction_part :: "string \<Rightarrow> string \<times> string" where
  "fraction_part (p # c # cs) =
     (if p = CHR ''.'' \<and> is_digit c then (c # takeWhile is_digit cs, dropWhile is_digit cs)
      else ([], p # c # cs))"
| "fraction_part cs = ([], cs)"

fun sign_of :: "string \<Rightarrow> bool \<times> string" where
  "sign_of [] = (False, [])"
| "sign_of (c # cs) =
     (if c = CHR ''-'' then (True, cs) else if c = CHR ''+'' then (False, cs)
      else (False, c # cs))"

fun exponent_part :: "string \<Rightarrow> int option \<times> string" where
  "exponent_part [] = (None, [])"
| "exponent_part (e # cs) =
     (if e = CHR ''e'' \<or> e = CHR ''E'' then
        (case sign_of cs of (neg, ds) \<Rightarrow>
           if takeWhile is_digit ds = [] then (None, e # cs)
           else (Some (if neg then - int (nat_of_digits (takeWhile is_digit ds))
                       else int (nat_of_digits (takeWhile is_digit ds))),
                 dropWhile is_digit ds))
      else (None, e # cs))"

definition match_number :: "string \<Rightarrow> (pyval \<times> string) option" where
  "match_number s =
     (let neg = (take 1 s = ''-'') in
      case integer_part (if neg then drop 1 s else s) of
        None \<Rightarrow> None
      | Some (ds, s1) \<Rightarrow>
          (case fraction_part s1 of (fs, s2) \<Rightarrow>
           case exponent_part s2 of (ex, s3) \<Rightarrow>
             if fs = [] \<and> ex = None then
               Some (PyInt (if neg then - int (nat_of_digits ds) else int (nat_of_digits ds)), s3)
             else
               Some (PyFloat (Dec neg (nat_of_digits (ds @ fs))
                                ((case ex of None \<Rightarrow> 0 | Some e \<Rightarrow> e) - int (length fs))),
                     s3)))"

text \<open>Each scanner consumes at least one character, which is what the tokenizer's
  termination needs.\<close>

lemma integer_part_shorter: "integer_part s = Some (ds, r) \<Longrightarrow> length r < length s"
  by (cases s) (auto split: if_splits simp: less_Suc_eq_le length_dropWhile_le)

lemma fraction_part_shorter: "fraction_part s = (fs, r) \<Longrightarrow> length r \<le> length s"
  by (induction s rule: fraction_part.induct)
     (auto split: if_splits intro: le_SucI length_dropWhile_le)

lemma sign_of_shorter: "sign_of s = (b, r) \<Longrightarrow> length r \<le> length s"
  by (cases s) (auto split: if_splits)

lemma exponent_part_shorter:
  assumes "exponent_part s = (ex, r)"
  shows "length r \<le> length s"
proof (cases s)
  case Nil
  with assms show ?thesis by simp
next
  case (Cons e cs)
  obtain neg ds where sg: "sign_of cs = (neg, ds)" by (cases "sign_of cs")
  have "length (dropWhile is_digit ds) \<le> length cs"
    using sign_of_shorter [OF sg] length_dropWhile_le [of is_digit ds] by linarith
  with assms Cons sg show ?thesis by (auto split: if_splits)
qed

lemma match_number_shorter:
  assumes "match_number s = Some (v, r)"
  shows "length r < length s"
proof -
  define s0 where "s0 = (if take 1 s = ''-'' then drop 1 s else s)"
  from assms obtain ds s1 where ip: "integer_part s0 = Some (ds, s1)"
    by (auto simp: match_number_def Let_def s0_def split: option.splits)
  obtain fs s2 where fp: "fraction_part s1 = (fs, s2)" by (cases "fraction_part s1")
  obtain ex s3 where ep: "exponent_part s2 = (ex, s3)" by (cases "exponent_part s2")
  from assms ip fp ep have r: "r = s3"
    by (auto simp: match_number_def Let_def s0_def split: if_splits)
  have "length s0 \<le> length s" by (simp add: s0_def)
  with integer_part_shorter [OF ip] fraction_part_shorter [OF fp]
    exponent_part_shorter [OF ep]
  show ?thesis unfolding r by linarith
qed

lemma cons_chunk_Some:
  "cons_chunk ch x = Some (s, r) \<Longrightarrow> \<exists>s'. x = Some (s', r)"
  by (auto simp: cons_chunk_def split: option.splits)

lemma scanstring_shorter: "scanstring cs = Some (s, r) \<Longrightarrow> length r < length cs"
proof (induction cs arbitrary: s r rule: scanstring.induct)
  case 1
  then show ?case by simp
next
  case (2 c cs)
  show ?case
    using "2.prems" "2.IH"
    by (auto split: if_splits list.splits option.splits dest!: cons_chunk_Some
        simp: less_Suc_eq_le) (fastforce | force)+
qed

subsection \<open>Tokens\<close>

datatype token = LBrace | RBrace | LBracket | RBracket | Colon | Comma | Atom pyval

definition cons_token :: "token \<Rightarrow> token list option \<Rightarrow> token list option" where
  "cons_token t r = (case r of None \<Rightarrow> None | Some ts \<Rightarrow> Some (t # ts))"

definition whitespace :: string where
  "whitespace = [CHR '' '', CHR 0x09, CHR 0x0A, CHR 0x0D]"

function tokens :: "string \<Rightarrow> token list option" where
  "tokens [] = Some []"
| \<open>tokens (c # cs) =
     (if c \<in> set whitespace then tokens cs
      else if c = CHR ''{'' then cons_token LBrace (tokens cs)
      else if c = CHR ''}'' then cons_token RBrace (tokens cs)
      else if c = CHR ''['' then cons_token LBracket (tokens cs)
      else if c = CHR '']'' then cons_token RBracket (tokens cs)
      else if c = CHR '':'' then cons_token Colon (tokens cs)
      else if c = CHR '','' then cons_token Comma (tokens cs)
      else if c = CHR ''"'' then
        (case scanstring cs of
           None \<Rightarrow> None
         | Some (s, rest) \<Rightarrow> cons_token (Atom (PyStr s)) (tokens rest))
      else if take 4 (c # cs) = ''null'' then cons_token (Atom PyNone) (tokens (drop 3 cs))
      else if take 4 (c # cs) = ''true'' then
        cons_token (Atom (PyBool True)) (tokens (drop 3 cs))
      else if take 5 (c # cs) = ''false'' then
        cons_token (Atom (PyBool False)) (tokens (drop 4 cs))
      else if take 3 (c # cs) = ''NaN'' then
        cons_token (Atom (PyFloat NaN)) (tokens (drop 2 cs))
      else if take 8 (c # cs) = ''Infinity'' then
        cons_token (Atom (PyFloat (Inf False))) (tokens (drop 7 cs))
      else if take 9 (c # cs) = ''-Infinity'' then
        cons_token (Atom (PyFloat (Inf True))) (tokens (drop 8 cs))
      else
        (case match_number (c # cs) of
           None \<Rightarrow> None
         | Some (v, rest) \<Rightarrow> cons_token (Atom v) (tokens rest)))\<close>
  by pat_completeness auto
termination
proof (relation "measure length", goal_cases)
  case 1 show ?case by simp
next
  case (9 c cs x2 s rest)
  then show ?case using scanstring_shorter [of cs s rest] by simp
next
  case (16 c cs x2 v rest)
  then show ?case using match_number_shorter [of "c # cs" v rest] by simp
qed simp_all

subsection \<open>Values\<close>

text \<open>
  \<open>dict_set\<close> is \<^verbatim>\<open>d[k] = v\<close>: a key that is present keeps its position and takes the
  new value, a new key goes to the end. \<open>deliver\<close> hands a finished value to the
  container on top of the stack, or ends the document when no container is open.
\<close>

fun dict_set :: "string \<Rightarrow> pyval \<Rightarrow> pydict \<Rightarrow> pydict" where
  "dict_set k v [] = [(k, v)]"
| "dict_set k v ((k', v') # d) = (if k' = k then (k, v) # d else (k', v') # dict_set k v d)"

datatype frame = ArrayF "pyval list" | ObjectF pydict | PairF pydict string

datatype mode =
    ExpectValue | AfterOpenArray | AfterElement
  | AfterOpenObject | ExpectKey | ExpectColon string | AfterMember
  | Finished pyval

fun deliver :: "pyval \<Rightarrow> frame list \<Rightarrow> (mode \<times> frame list) option" where
  "deliver v [] = Some (Finished v, [])"
| "deliver v (ArrayF xs # st) = Some (AfterElement, ArrayF (xs @ [v]) # st)"
| "deliver v (PairF d k # st) = Some (AfterMember, ObjectF (dict_set k v d) # st)"
| "deliver v (ObjectF d # st) = None"

fun start_value :: "token \<Rightarrow> frame list \<Rightarrow> (mode \<times> frame list) option" where
  "start_value (Atom v) st = deliver v st"
| "start_value LBracket st = Some (AfterOpenArray, ArrayF [] # st)"
| "start_value LBrace st = Some (AfterOpenObject, ObjectF [] # st)"
| "start_value t st = None"

fun close_array :: "frame list \<Rightarrow> (mode \<times> frame list) option" where
  "close_array (ArrayF xs # st) = deliver (PyList xs) st"
| "close_array st = None"

fun close_object :: "frame list \<Rightarrow> (mode \<times> frame list) option" where
  "close_object (ObjectF d # st) = deliver (PyDict d) st"
| "close_object st = None"

fun member_key :: "token \<Rightarrow> frame list \<Rightarrow> (mode \<times> frame list) option" where
  "member_key (Atom (PyStr k)) st = Some (ExpectColon k, st)"
| "member_key t st = None"

fun member_value :: "string \<Rightarrow> frame list \<Rightarrow> (mode \<times> frame list) option" where
  "member_value k (ObjectF d # st) = Some (ExpectValue, PairF d k # st)"
| "member_value k st = None"

definition step :: "mode \<Rightarrow> frame list \<Rightarrow> token \<Rightarrow> (mode \<times> frame list) option" where
  "step m st t =
     (case m of
        ExpectValue \<Rightarrow> start_value t st
      | AfterOpenArray \<Rightarrow> if t = RBracket then close_array st else start_value t st
      | AfterElement \<Rightarrow>
          if t = RBracket then close_array st
          else if t = Comma then Some (ExpectValue, st)
          else None
      | AfterOpenObject \<Rightarrow> if t = RBrace then close_object st else member_key t st
      | ExpectKey \<Rightarrow> member_key t st
      | ExpectColon k \<Rightarrow> if t = Colon then member_value k st else None
      | AfterMember \<Rightarrow>
          if t = RBrace then close_object st
          else if t = Comma then Some (ExpectKey, st)
          else None
      | Finished v \<Rightarrow> None)"

fun parse :: "mode \<Rightarrow> frame list \<Rightarrow> token list \<Rightarrow> pyval option" where
  "parse m st [] = (case m of Finished v \<Rightarrow> Some v | _ \<Rightarrow> None)"
| "parse m st (t # ts) =
     (case step m st t of None \<Rightarrow> None | Some (m', st') \<Rightarrow> parse m' st' ts)"

definition json_decode :: "string \<Rightarrow> pyval option" where
  "json_decode s = (case tokens s of None \<Rightarrow> None | Some ts \<Rightarrow> parse ExpectValue [] ts)"


text \<open>
  \<^verbatim>\<open>json.loads\<close> as \<open>analyze_conversation\<close> uses it. \<open>message\<close> gives the text
  of the \<^verbatim>\<open>JSONDecodeError\<close> for an input that does not decode.
\<close>

definition json_loads :: "(string \<Rightarrow> string) \<Rightarrow> string \<Rightarrow> exn + pyval" where
  "json_loads message s =
     (case json_decode s of
        None \<Rightarrow> Inl (Exn JSONDecodeError (message s))
      | Some v \<Rightarrow> Inr v)"

section \<open>Game state and prompt\<close>

record stat_snapshot =
  intimacy :: int
  mental :: int
  stamina :: int
  power :: int
  speed :: int

record game_state =
  stats :: stat_snapshot
  current_month :: int

text \<open>\<^verbatim>\<open>str(n)\<close> for an integer: decimal digits, with a minus sign below zero.\<close>

definition digit :: "nat \<Rightarrow> char" where
  "digit d = char_of (48 + d)"

function str_nat :: "nat \<Rightarrow> string" where
  "str_nat n = (if n < 10 then [digit n] else str_nat (n div 10) @ [digit (n mod 10)])"
  by pat_completeness auto
termination
  by (relation "measure (\<lambda>n. n)") auto

declare str_nat.simps [simp del]

definition str_int :: "int \<Rightarrow> string" where
  "str_int i = (if i < 0 then ''-'' @ str_nat (nat (- i)) else str_nat (nat i))"

text \<open>
  \<^verbatim>\<open>json.dumps(current_stats, ensure_ascii=False)\<close> on a dictionary from names to
  integers, with the default separators. The five keys of \<open>current_stats\<close> are plain
  ASCII names, so no character of a key needs escaping.
\<close>

fun join :: "string \<Rightarrow> string list \<Rightarrow> string" where
  "join sep [] = []"
| "join sep [x] = x"
| "join sep (x # y # ys) = x @ sep @ join sep (y # ys)"

definition json_dumps :: "(string \<times> int) list \<Rightarrow> string" where
  \<open>json_dumps d =
     ''{'' @ join '', '' (map (\<lambda>(k, v). ''"'' @ k @ ''": '' @ str_int v) d) @ ''}''\<close>

definition current_stats :: "game_state \<Rightarrow> (string \<times> int) list" where
  "current_stats gs =
     [(''intimacy'', intimacy (stats gs)),
      (''mental'', mental (stats gs)),
      (''stamina'', stamina (stats gs)),
      (''power'', power (stats gs)),
      (''speed'', speed (stats gs))]"

text \<open>
  The human turn of the prompt template with its five placeholders filled in. The system
  turn has no placeholder (its braces are escaped), so it is the same text on every call
  and belongs to the oracle below.
\<close>

definition human_message :: "int \<Rightarrow> string \<Rightarrow> string \<Rightarrow> string \<Rightarrow> string \<Rightarrow> string" where
  "human_message month stats_text user_message bot_reply context_info =
     ''['' @ [CHR 0xED, CHR 0x98, CHR 0x84, CHR 0xEC, CHR 0x9E, CHR 0xAC] @ '' ''
     @ [CHR 0xEA, CHR 0xB2, CHR 0x8C, CHR 0xEC, CHR 0x9E, CHR 0x84] @ '' ''
     @ [CHR 0xEC, CHR 0x83, CHR 0x81, CHR 0xED, CHR 0x83, CHR 0x9C] @ '']''
     @ [CHR 0x0A] @ ''- '' @ [CHR 0xED, CHR 0x98, CHR 0x84, CHR 0xEC, CHR 0x9E,
     CHR 0xAC] @ '' '' @ [CHR 0xEC, CHR 0x8B, CHR 0x9C, CHR 0xEC, CHR 0xA0, CHR 0x90]
     @ '': '' @ str_int month @
     [CHR 0xEC, CHR 0x9B, CHR 0x94, CHR 0x0A] @ ''- '' @ [CHR 0xED, CHR 0x98, CHR 0x84,
     CHR 0xEC, CHR 0x9E, CHR 0xAC] @ '' '' @ [CHR 0xEC, CHR 0x8A, CHR 0xA4, CHR 0xED,
     CHR 0x83, CHR 0xAF] @ '': '' @ stats_text @
     [CHR 0x0A, CHR 0x0A] @ ''['' @ [CHR 0xEC, CHR 0x9D, CHR 0xB4, CHR 0xEB, CHR 0xB2,
     CHR 0x88] @ '' '' @ [CHR 0xEB, CHR 0x8C, CHR 0x80, CHR 0xED, CHR 0x99, CHR 0x94]
     @ '']'' @ [CHR 0x0A, CHR 0xEC, CHR 0xBD, CHR 0x94, CHR 0xEC, CHR 0xB9, CHR 0x98]
     @ ''('' @ [CHR 0xEC, CHR 0x82, CHR 0xAC, CHR 0xEC, CHR 0x9A, CHR 0xA9, CHR 0xEC,
     CHR 0x9E, CHR 0x90] @ ''): '' @ user_message @
     [CHR 0x0A, CHR 0xEB, CHR 0xAF, CHR 0xBC, CHR 0xEC, CHR 0x84, CHR 0x9D]
     @ ''(AI): '' @ bot_reply @
     [CHR 0x0A, CHR 0x0A] @ context_info @
     [CHR 0x0A, CHR 0x0A, CHR 0xEC, CHR 0x9D, CHR 0xB4] @ '' '' @ [CHR 0xEB, CHR 0x8C,
     CHR 0x80, CHR 0xED, CHR 0x99, CHR 0x94, CHR 0xEA, CHR 0xB0, CHR 0x80] @ '' ''
     @ [CHR 0xEB, CHR 0xAF, CHR 0xBC, CHR 0xEC, CHR 0x84, CHR 0x9D, CHR 0xEC, CHR 0x9D,
     CHR 0x98] @ '' '' @ [CHR 0xEC, CHR 0x8A, CHR 0xA4, CHR 0xED, CHR 0x83, CHR 0xAF,
     CHR 0xEC, CHR 0x97, CHR 0x90] @ '' '' @ [CHR 0xEB, CHR 0xAF, CHR 0xB8, CHR 0xEC,
     CHR 0xB9, CHR 0x98, CHR 0xEB, CHR 0x8A, CHR 0x94] @ '' '' @ [CHR 0xEC, CHR 0x98,
     CHR 0x81, CHR 0xED, CHR 0x96, CHR 0xA5, CHR 0xEC, CHR 0x9D, CHR 0x84] @ '' ''
     @ [CHR 0xEB, CHR 0xB6, CHR 0x84, CHR 0xEC, CHR 0x84, CHR 0x9D, CHR 0xED, CHR 0x95,
     CHR 0xB4, CHR 0xEC, CHR 0xA3, CHR 0xBC, CHR 0xEC, CHR 0x84, CHR 0xB8, CHR 0xEC,
     CHR 0x9A, CHR 0x94] @ ''.''"

text \<open>
  The context block: the header line (U+B300 U+D654, space, U+B9E5 U+B77D in brackets)
  followed by the context, when the optional argument is truthy, and the empty string
  otherwise.
\<close>

definition context_header :: string where
  "context_header =
     ''['' @ [CHR 0xEB, CHR 0x8C, CHR 0x80, CHR 0xED, CHR 0x99, CHR 0x94] @ '' ''
     @ [CHR 0xEB, CHR 0xA7, CHR 0xA5, CHR 0xEB, CHR 0x9D, CHR 0xBD] @ '']''
     @ [CHR 0x0A]"

definition context_info_of :: "string option \<Rightarrow> string" where
  "context_info_of conversation_context =
     (case conversation_context of
        None \<Rightarrow> []
      | Some c \<Rightarrow> if c \<noteq> [] then context_header @ c else [])"

section \<open>analyze_conversation\<close>

text \<open>The two fixed reason strings (U+C2A4 U+D0EF U+0020 U+BD84 U+C11D U+0020 U+C2E4 U+D328,
  "stat analysis failed", and U+B300 U+D654 U+0020 U+BD84 U+C11D U+0020 U+C644 U+B8CC,
  "conversation analysis complete").\<close>

definition failure_reason :: string where
  "failure_reason =
     [CHR 0xEC, CHR 0x8A, CHR 0xA4, CHR 0xED, CHR 0x83, CHR 0xAF] @ '' '' @ [CHR 0xEB,
     CHR 0xB6, CHR 0x84, CHR 0xEC, CHR 0x84, CHR 0x9D] @ '' '' @ [CHR 0xEC, CHR 0x8B,
     CHR 0xA4, CHR 0xED, CHR 0x8C, CHR 0xA8]"

definition default_reason :: string where
  "default_reason =
     [CHR 0xEB, CHR 0x8C, CHR 0x80, CHR 0xED, CHR 0x99, CHR 0x94] @ '' '' @ [CHR 0xEB,
     CHR 0xB6, CHR 0x84, CHR 0xEC, CHR 0x84, CHR 0x9D] @ '' '' @ [CHR 0xEC, CHR 0x99,
     CHR 0x84, CHR 0xEB, CHR 0xA3, CHR 0x8C]"

text \<open>The line printed by the handler: the class name and the message of the exception.\<close>

definition warning :: "exn \<Rightarrow> string" where
  "warning e =
     (case e of Exn k m \<Rightarrow>
        ''[WARNING] '' @ [CHR 0xEC, CHR 0x8A, CHR 0xA4, CHR 0xED, CHR 0x83, CHR 0xAF]
        @ '' '' @ [CHR 0xEB, CHR 0xB6, CHR 0x84, CHR 0xEC, CHR 0x84, CHR 0x9D] @ '' ''
        @ [CHR 0xEC, CHR 0x8B, CHR 0xA4, CHR 0xED, CHR 0x8C, CHR 0xA8] @ '' ('' @
        type_name k @ ''): '' @ m)"

text \<open>
  The body of the \<^verbatim>\<open>try\<close> block. \<open>prompt_of\<close> is the human turn that
  \<^verbatim>\<open>chain.invoke\<close> sends. \<open>llm\<close> is the oracle under the fixed system turn: it maps
  the human turn to the content of the response, or raises. \<open>loads\<close> is
  \<^verbatim>\<open>json.loads\<close>. Each step that can raise is a case distinction; the first exception
  ends the block.
\<close>

definition prompt_of :: "string \<Rightarrow> string \<Rightarrow> game_state \<Rightarrow> string option \<Rightarrow> string" where
  "prompt_of user_message bot_reply gs conversation_context =
     human_message (current_month gs) (json_dumps (current_stats gs)) user_message bot_reply
       (context_info_of conversation_context)"

definition try_block ::
  "(string \<Rightarrow> exn + string) \<Rightarrow> (string \<Rightarrow> exn + pyval) \<Rightarrow>
   string \<Rightarrow> string \<Rightarrow> game_state \<Rightarrow> string option \<Rightarrow> exn + (pydict \<times> pyval)" where
  "try_block llm loads user_message bot_reply gs conversation_context =
     (case llm (prompt_of user_message bot_reply gs conversation_context) of
        Inl e \<Rightarrow> Inl e
      | Inr content \<Rightarrow>
     (case loads content of
        Inl e \<Rightarrow> Inl e
      | Inr result \<Rightarrow>
     (case py_get result ''stat_changes'' (PyDict []) of
        Inl e \<Rightarrow> Inl e
      | Inr stat_changes \<Rightarrow>
     (case py_get result ''reason'' (PyStr default_reason) of
        Inl e \<Rightarrow> Inl e
      | Inr reason \<Rightarrow>
     (case py_items stat_changes of
        Inl e \<Rightarrow> Inl e
      | Inr items \<Rightarrow> Inr (filter (\<lambda>(k, v). ne_zero v) items, reason))))))"

text \<open>
  The whole call: the lines printed, and either the exception that reaches the caller or
  the returned pair. The handler catches \<^verbatim>\<open>JSONDecodeError\<close> and \<^verbatim>\<open>KeyError\<close>
  raised anywhere in the block, the oracle call included.
\<close>

definition analyze_conversation ::
  "(string \<Rightarrow> exn + string) \<Rightarrow> (string \<Rightarrow> exn + pyval) \<Rightarrow>
   string \<Rightarrow> string \<Rightarrow> game_state \<Rightarrow> string option \<Rightarrow>
   string list \<times> (exn + (pydict \<times> pyval))" where
  "analyze_conversation llm loads user_message bot_reply gs conversation_context =
     (case try_block llm loads user_message bot_reply gs conversation_context of
        Inr r \<Rightarrow> ([], Inr r)
      | Inl e \<Rightarrow>
          if kind e = JSONDecodeError \<or> kind e = KeyError
          then ([warning e], Inr ([], PyStr failure_reason))
          else ([], Inl e))"

section \<open>Rule tables\<close>

text \<open>
  The training types are U+CCB4 U+B825 (stamina), U+ADFC U+B825 (strength),
  U+C8FC U+B8E8 (base running), U+D0C0 U+ACA9 (batting) and U+BA58 U+D0C8 (mental).
\<close>

definition stamina_training :: string where
  "stamina_training = ([CHR 0xEC, CHR 0xB2, CHR 0xB4, CHR 0xEB, CHR 0xA0, CHR 0xA5])"

definition strength_training :: string where
  "strength_training = ([CHR 0xEA, CHR 0xB7, CHR 0xBC, CHR 0xEB, CHR 0xA0, CHR 0xA5])"

definition base_running :: string where
  "base_running = ([CHR 0xEC, CHR 0xA3, CHR 0xBC, CHR 0xEB, CHR 0xA3, CHR 0xA8])"

definition batting :: string where
  "batting = ([CHR 0xED, CHR 0x83, CHR 0x80, CHR 0xEA, CHR 0xB2, CHR 0xA9])"

definition mental_training :: string where
  "mental_training = ([CHR 0xEB, CHR 0xA9, CHR 0x98, CHR 0xED, CHR 0x83, CHR 0x88])"

definition training_effects :: "(string \<times> (string \<times> int) list) list" where
  "training_effects =
     [(stamina_training, [(''stamina'', 5), (''mental'', 2)]),
      (strength_training, [(''power'', 5), (''stamina'', -2)]),
      (base_running, [(''speed'', 5), (''mental'', 3)]),
      (batting, [(''power'', 3), (''mental'', 2)]),
      (mental_training, [(''mental'', 5), (''intimacy'', 2)])]"

definition calculate_training_bonus :: "string \<Rightarrow> game_state \<Rightarrow> (string \<times> int) list" where
  "calculate_training_bonus training_type gs =
     (case map_of training_effects training_type of None \<Rightarrow> [] | Some d \<Rightarrow> d)"

text \<open>The five descriptors of the intimacy ladder, lowest first.\<close>

definition very_low :: string where
  "very_low =
     [CHR 0xEB, CHR 0xA7, CHR 0xA4, CHR 0xEC, CHR 0x9A, CHR 0xB0] @ '' '' @ [CHR 0xEB,
     CHR 0x82, CHR 0xAE, CHR 0xEC, CHR 0x9D, CHR 0x8C] @ '' - '' @ [CHR 0xEA, CHR 0xB1,
     CHR 0xB0, CHR 0xEC, CHR 0x9D, CHR 0x98] @ '' '' @ [CHR 0xEB, CHR 0x8C, CHR 0x80,
     CHR 0xED, CHR 0x99, CHR 0x94, CHR 0xED, CHR 0x95, CHR 0x98, CHR 0xEC, CHR 0xA7,
     CHR 0x80] @ '' '' @ [CHR 0xEC, CHR 0x95, CHR 0x8A, CHR 0xEC, CHR 0x9C, CHR 0xBC,
     CHR 0xEB, CHR 0xA0, CHR 0xA4] @ '' '' @ [CHR 0xED, CHR 0x95, CHR 0xA8]"

definition low :: string where
  "low =
     [CHR 0xEB, CHR 0x82, CHR 0xAE, CHR 0xEC, CHR 0x9D, CHR 0x8C] @ '' - ''
     @ [CHR 0xEB, CHR 0xB0, CHR 0xA9, CHR 0xEC, CHR 0x96, CHR 0xB4, CHR 0xEC, CHR 0xA0,
     CHR 0x81, CHR 0xEC, CHR 0x9D, CHR 0xB4, CHR 0xEA, CHR 0xB3, CHR 0xA0] @ '' ''
     @ [CHR 0xEA, CHR 0xB1, CHR 0xB0, CHR 0xEB, CHR 0xA6, CHR 0xAC, CHR 0xEB, CHR 0xA5,
     CHR 0xBC] @ '' '' @ [CHR 0xEB, CHR 0x91, CHR 0xA0]"

definition medium :: string where
  "medium =
     [CHR 0xEB, CHR 0xB3, CHR 0xB4, CHR 0xED, CHR 0x86, CHR 0xB5] @ '' - ''
     @ [CHR 0xEC, CHR 0xA1, CHR 0xB0, CHR 0xEA, CHR 0xB8, CHR 0x88, CHR 0xEC, CHR 0x94,
     CHR 0xA9] @ '' '' @ [CHR 0xEB, CHR 0xA7, CHR 0x88, CHR 0xEC, CHR 0x9D, CHR 0x8C,
     CHR 0xEC, CHR 0x9D, CHR 0x84] @ '' '' @ [CHR 0xEC, CHR 0x97, CHR 0xB4, CHR 0xEA,
     CHR 0xB8, CHR 0xB0] @ '' '' @ [CHR 0xEC, CHR 0x8B, CHR 0x9C, CHR 0xEC, CHR 0x9E,
     CHR 0x91]"

definition high :: string where
  "high =
     [CHR 0xEB, CHR 0x86, CHR 0x92, CHR 0xEC, CHR 0x9D, CHR 0x8C] @ '' - ''
     @ [CHR 0xEC, CHR 0x8B, CHR 0xA0, CHR 0xEB, CHR 0xA2, CHR 0xB0, CHR 0xED, CHR 0x95,
     CHR 0x98, CHR 0xEA, CHR 0xB3, CHR 0xA0] @ '' '' @ [CHR 0xED, CHR 0x98, CHR 0x91,
     CHR 0xEC, CHR 0xA1, CHR 0xB0, CHR 0xEC, CHR 0xA0, CHR 0x81]"

definition very_high :: string where
  "very_high =
     [CHR 0xEB, CHR 0xA7, CHR 0xA4, CHR 0xEC, CHR 0x9A, CHR 0xB0] @ '' '' @ [CHR 0xEB,
     CHR 0x86, CHR 0x92, CHR 0xEC, CHR 0x9D, CHR 0x8C] @ '' - '' @ [CHR 0xEC, CHR 0xA7,
     CHR 0x84, CHR 0xEC, CHR 0x8B, CHR 0xAC, CHR 0xEC, CHR 0x9C, CHR 0xBC, CHR 0xEB,
     CHR 0xA1, CHR 0x9C] @ '' '' @ [CHR 0xEC, CHR 0xA1, CHR 0xB4, CHR 0xEA, CHR 0xB2,
     CHR 0xBD, CHR 0xED, CHR 0x95, CHR 0x98, CHR 0xEA, CHR 0xB3, CHR 0xA0] @ '' ''
     @ [CHR 0xEB, CHR 0x94, CHR 0xB0, CHR 0xEB, CHR 0xA6, CHR 0x84]"

definition get_intimacy_level :: "int \<Rightarrow> string" where
  "get_intimacy_level i =
     (if i < 20 then very_low
      else if i < 40 then low
      else if i < 60 then medium
      else if i < 80 then high
      else very_high)"

section \<open>A conversation turn\<close>

text \<open>
  The turn used as the running example: month 3, the stats 30, 50, 60, 40 and 45, one
  message of the coach and one reply. \<open>oracle_stub text\<close> is an oracle that answers
  every prompt with \<open>text\<close>. \<open>expecting_value\<close> is the message of CPython for a text
  whose first character starts no value.
\<close>

definition example_state :: game_state where
  "example_state =
     \<lparr>stats = \<lparr>intimacy = 30, mental = 50, stamina = 60, power = 40, speed = 45\<rparr>,
      current_month = 3\<rparr>"

definition example_user_message :: string where
  "example_user_message = ''You did great today, keep it up!''"

definition example_bot_reply :: string where
  "example_bot_reply = ''Thanks, coach!''"

definition oracle_stub :: "string \<Rightarrow> string \<Rightarrow> exn + string" where
  "oracle_stub text prompt = Inr text"

definition expecting_value :: "string \<Rightarrow> string" where
  "expecting_value s = ''Expecting value: line 1 column 1 (char 0)''"

text \<open>Response texts used below.\<close>

definition example_response :: string where
  \<open>example_response =
     ''{"stat_changes":{"intimacy":5,"mental":3,"stamina":0},"reason":"Positive encouragement"}''\<close>

definition array_response :: string where
  "array_response = ''[]''"

definition null_response :: string where
  "null_response = ''null''"


definition empty_response :: string where
  "empty_response = ''{}''"

definition bare_response :: string where
  \<open>bare_response = ''{"stat_changes": {"mental": 3}}''\<close>

definition mixed_response :: string where
  \<open>mixed_response = ''{"stat_changes": {"intimacy": 5, "mental": 0, "speed": -2}}''\<close>

definition zero_response :: string where
  \<open>zero_response = ''{"stat_changes": {"intimacy": 0, "mental": 0}, "reason": "small talk"}''\<close>

definition float_zero_response :: string where
  \<open>float_zero_response = ''{"stat_changes": {"power": 0.0}}''\<close>

definition loose_response :: string where
  \<open>loose_response = ''{"stat_changes": {"luck": 99, "mental": "high", "power": 2.5}}''\<close>

section \<open>Properties of the rule tables\<close>

lemma training_types_distinct:
  "distinct [stamina_training, strength_training, base_running, batting, mental_training]"
  by (simp add: stamina_training_def strength_training_def base_running_def batting_def
      mental_training_def)

lemma descriptors_distinct: "distinct [very_low, low, medium, high, very_high]"
  by (simp add: very_low_def low_def medium_def high_def very_high_def)

text \<open>
  C6: \<open>get_intimacy_level\<close> is defined on every integer and splits the integers into
  five bands at 20, 40, 60 and 80, each band with its own descriptor; a band contains its
  lower bound (20 is in the second band), everything below 20 is in the lowest band and
  everything from 80 on (100, 150) in the highest.
\<close>

theorem get_intimacy_level_bands:
  "(i < 20 \<longrightarrow> get_intimacy_level i = very_low) \<and>
   (20 \<le> i \<and> i < 40 \<longrightarrow> get_intimacy_level i = low) \<and>
   (40 \<le> i \<and> i < 60 \<longrightarrow> get_intimacy_level i = medium) \<and>
   (60 \<le> i \<and> i < 80 \<longrightarrow> get_intimacy_level i = high) \<and>
   (80 \<le> i \<longrightarrow> get_intimacy_level i = very_high) \<and>
   distinct [very_low, low, medium, high, very_high] \<and>
   map get_intimacy_level [0, 19, 20, 39, 40, 59, 60, 79, 80, 100, 150] =
     [very_low, very_low, low, low, medium, medium, high, high,
      very_high, very_high, very_high]"
  using descriptors_distinct by (simp add: get_intimacy_level_def)

theorem get_intimacy_level_bands_witness:
  "get_intimacy_level 20 = low \<and> get_intimacy_level 20 \<noteq> very_low \<and>
   get_intimacy_level (- 7) = very_low \<and> get_intimacy_level 150 = very_high"
  using get_intimacy_level_bands [of 20] get_intimacy_level_bands [of "- 7"]
    get_intimacy_level_bands [of 150]
  by auto

text \<open>
  C7: the strength training type (U+ADFC U+B825) gives power +5 and stamina -2, and a
  training type that is not a key of the table, such as "unknown-type", gives the empty
  mapping.
\<close>

theorem calculate_training_bonus_lookup:
  "calculate_training_bonus strength_training gs = [(''power'', 5), (''stamina'', - 2)] \<and>
   calculate_training_bonus ''unknown-type'' gs = [] \<and>
   (t \<notin> {stamina_training, strength_training, base_running, batting, mental_training}
      \<longrightarrow> calculate_training_bonus t gs = [])"
  using training_types_distinct
  by (simp add: calculate_training_bonus_def training_effects_def
      stamina_training_def strength_training_def base_running_def batting_def
      mental_training_def)

theorem calculate_training_bonus_lookup_witness:
  "''sprint'' \<notin> {stamina_training, strength_training, base_running, batting, mental_training} \<and>
   calculate_training_bonus ''sprint'' \<lparr>stats = \<lparr>intimacy = 30, mental = 50, stamina = 60,
     power = 40, speed = 45\<rparr>, current_month = 3\<rparr> = []"
proof -
  have h: "''sprint'' \<notin>
      {stamina_training, strength_training, base_running, batting, mental_training}"
    by (simp add: stamina_training_def strength_training_def base_running_def batting_def
        mental_training_def)
  with calculate_training_bonus_lookup [of _ "''sprint''"] show ?thesis
    by blast
qed

text \<open>
  C9: the bonus depends on the training type alone; two game states give the same
  mapping.
\<close>

theorem calculate_training_bonus_ignores_game_state:
  "calculate_training_bonus training_type gs1 = calculate_training_bonus training_type gs2"
  by (simp add: calculate_training_bonus_def)

section \<open>Properties of analyze_conversation\<close>

lemmas decoder_simps = json_loads_def json_decode_def step_def cons_token_def cons_chunk_def
  whitespace_def is_digit_def match_number_def nat_of_digits_def digit_value_def
  backslash_def

text \<open>
  Once the oracle has answered and the answer has decoded to a dictionary, the block
  depends on the two fields alone.
\<close>

lemma try_block_decoded:
  assumes "llm (prompt_of user_message bot_reply gs ctx) = Inr response"
    and "loads response = Inr (PyDict d)"
  shows "try_block llm loads user_message bot_reply gs ctx =
     (case py_items (case map_of d ''stat_changes'' of None \<Rightarrow> PyDict [] | Some v \<Rightarrow> v) of
        Inl e \<Rightarrow> Inl e
      | Inr items \<Rightarrow>
          Inr (filter (\<lambda>(k, v). ne_zero v) items,
               case map_of d ''reason'' of None \<Rightarrow> PyStr default_reason | Some r \<Rightarrow> r))"
  using assms by (simp add: try_block_def)

lemma reasons_differ: "default_reason \<noteq> failure_reason"
  by (simp add: default_reason_def failure_reason_def)

lemma ne_zero_iff:
  "ne_zero v =
     (v \<noteq> PyInt 0 \<and> v \<noteq> PyBool False \<and> (\<forall>f. v = PyFloat f \<longrightarrow> \<not> float_eq_zero f))"
  by (cases v) auto

text \<open>
  What the handler lets through is never a \<^verbatim>\<open>JSONDecodeError\<close> or a
  \<^verbatim>\<open>KeyError\<close>, and nothing is printed on the way.
\<close>

lemma uncaught_exception:
  assumes "analyze_conversation llm loads user_message bot_reply gs ctx = (out, Inl e)"
  shows "kind e \<noteq> JSONDecodeError \<and> kind e \<noteq> KeyError \<and> out = [] \<and>
         try_block llm loads user_message bot_reply gs ctx = Inl e"
  using assms by (auto simp: analyze_conversation_def split: sum.splits if_splits)

text \<open>
  C1: the claim is that no response text makes \<open>analyze_conversation\<close> raise. The
  handler names two exception classes only. The response \<^verbatim>\<open>[]\<close> is valid JSON and
  decodes to the empty list; \<^verbatim>\<open>result.get\<close> then raises \<^verbatim>\<open>AttributeError\<close>, which
  reaches the caller, and nothing is printed.
\<close>

theorem array_response_raises:
  "json_loads expecting_value array_response = Inr (PyList []) \<and>
   analyze_conversation (oracle_stub array_response) (json_loads expecting_value)
       example_user_message example_bot_reply example_state None =
     ([], Inl (Exn AttributeError
        ([CHR 0x27] @ ''list'' @ [CHR 0x27] @ '' object has no attribute '' @
         [CHR 0x27] @ ''get'' @ [CHR 0x27])))"
proof -
  have l: "json_loads expecting_value array_response = Inr (PyList [])"
    by (simp add: decoder_simps array_response_def)
  then show ?thesis
    by (simp add: analyze_conversation_def try_block_def oracle_stub_def no_attribute_def)
qed

text \<open>
  The handler: when the oracle has answered and decoding the answer raises
  \<^verbatim>\<open>JSONDecodeError\<close> (or \<^verbatim>\<open>KeyError\<close>), the call prints one warning line, made of
  the class name and the message of the exception, and returns the empty mapping with the
  fixed failure reason. The second lemma runs the text \<^verbatim>\<open>not json\<close> and spells the
  printed line and the returned reason out.
\<close>

lemma decode_failure_is_absorbed:
  assumes "llm (prompt_of user_message bot_reply gs ctx) = Inr response"
    and "loads response = Inl (Exn k m)"
    and "k = JSONDecodeError \<or> k = KeyError"
  shows "analyze_conversation llm loads user_message bot_reply gs ctx =
           ([warning (Exn k m)], Inr ([], PyStr failure_reason))"
  using assms by (auto simp: analyze_conversation_def try_block_def)

lemma decode_failure_example:
  "analyze_conversation (oracle_stub ''not json'') (json_loads expecting_value)
       example_user_message example_bot_reply example_state None =
     ([
        ''[WARNING] '' @ [CHR 0xEC, CHR 0x8A, CHR 0xA4, CHR 0xED, CHR 0x83, CHR 0xAF]
        @ '' '' @ [CHR 0xEB, CHR 0xB6, CHR 0x84, CHR 0xEC, CHR 0x84, CHR 0x9D] @ '' ''
        @ [CHR 0xEC, CHR 0x8B, CHR 0xA4, CHR 0xED, CHR 0x8C, CHR 0xA8]
        @ '' (JSONDecodeError): Expecting value: line 1 column 1 (char 0)''],
      Inr ([], PyStr (
        [CHR 0xEC, CHR 0x8A, CHR 0xA4, CHR 0xED, CHR 0x83, CHR 0xAF] @ '' ''
        @ [CHR 0xEB, CHR 0xB6, CHR 0x84, CHR 0xEC, CHR 0x84, CHR 0x9D] @ '' ''
        @ [CHR 0xEC, CHR 0x8B, CHR 0xA4, CHR 0xED, CHR 0x8C, CHR 0xA8])))"
proof -
  have l: "json_loads expecting_value ''not json'' =
      Inl (Exn JSONDecodeError ''Expecting value: line 1 column 1 (char 0)'')"
    by (simp add: decoder_simps expecting_value_def)
  have o: "oracle_stub ''not json''
      (prompt_of example_user_message example_bot_reply example_state None) = Inr ''not json''"
    by (simp add: oracle_stub_def)
  from decode_failure_is_absorbed
      [where llm = "oracle_stub ''not json''" and loads = "json_loads expecting_value"
         and response = "''not json''", OF o l]
  show ?thesis by (simp add: warning_def failure_reason_def)
qed

text \<open>
  C2: the claim is that every response text that does not decode as the expected
  structured object makes the call print a warning and return the empty mapping with the
  failure reason. The handler does that for a text that is not JSON, as the two lemmas
  above show. The response \<^verbatim>\<open>null\<close> is JSON and decodes to \<^verbatim>\<open>None\<close>, which is not
  the expected object: \<^verbatim>\<open>result.get\<close> raises \<^verbatim>\<open>AttributeError\<close>, which the handler
  does not name, so the exception reaches the caller, nothing is printed and nothing is
  returned. It is the defect of C1.
\<close>

theorem null_response_raises:
  "json_loads expecting_value null_response = Inr PyNone \<and>
   analyze_conversation (oracle_stub null_response) (json_loads expecting_value)
       example_user_message example_bot_reply example_state None =
     ([], Inl (Exn AttributeError
        ([CHR 0x27] @ ''NoneType'' @ [CHR 0x27] @ '' object has no attribute '' @
         [CHR 0x27] @ ''get'' @ [CHR 0x27])))"
proof -
  have l: "json_loads expecting_value null_response = Inr PyNone"
    by (simp add: decoder_simps null_response_def)
  then show ?thesis
    by (simp add: analyze_conversation_def try_block_def oracle_stub_def no_attribute_def)
qed

text \<open>
  C3: when the response decodes to an object whose \<^verbatim>\<open>stat_changes\<close> is a mapping from
  names to integers, the returned delta holds exactly the entries with a non-zero value,
  keys and values unchanged and in their order; if every value is zero the delta is empty.
\<close>

theorem nonzero_entries_are_returned:
  assumes "llm (prompt_of user_message bot_reply gs ctx) = Inr response"
    and "loads response = Inr (PyDict d)"
    and "map_of d ''stat_changes'' = Some (PyDict (map (\<lambda>(k, n). (k, PyInt n)) changes))"
  shows "analyze_conversation llm loads user_message bot_reply gs ctx =
           ([], Inr (map (\<lambda>(k, n). (k, PyInt n)) (filter (\<lambda>(k, n). n \<noteq> 0) changes),
                     case map_of d ''reason'' of None \<Rightarrow> PyStr default_reason | Some r \<Rightarrow> r)) \<and>
         ((\<forall>e \<in> set changes. snd e = 0) \<longrightarrow>
            analyze_conversation llm loads user_message bot_reply gs ctx =
              ([], Inr ([], case map_of d ''reason'' of None \<Rightarrow> PyStr default_reason
                                                    | Some r \<Rightarrow> r)))"
proof -
  have f: "filter (\<lambda>(k, v). ne_zero v) (map (\<lambda>(k, n). (k, PyInt n)) changes) =
      map (\<lambda>(k, n). (k, PyInt n)) (filter (\<lambda>(k, n). n \<noteq> 0) changes)"
    by (induction changes) auto
  have z: "(\<forall>e \<in> set changes. snd e = 0) \<Longrightarrow> filter (\<lambda>(k, n). n \<noteq> 0) changes = []"
    by (induction changes) auto
  show ?thesis
    using try_block_decoded [where llm = llm and loads = loads, OF assms(1,2)] assms(3) f z
    by (auto simp: analyze_conversation_def)
qed

theorem nonzero_entries_are_returned_witness:
  "analyze_conversation (oracle_stub mixed_response) (json_loads expecting_value)
       example_user_message example_bot_reply example_state None =
     ([], Inr ([(''intimacy'', PyInt 5), (''speed'', PyInt (- 2))], PyStr default_reason)) \<and>
   analyze_conversation (oracle_stub zero_response) (json_loads expecting_value)
       example_user_message example_bot_reply example_state None =
     ([], Inr ([], PyStr ''small talk''))"
proof -
  have l1: "json_loads expecting_value mixed_response =
      Inr (PyDict [(''stat_changes'', PyDict (map (\<lambda>(k, n). (k, PyInt n))
        [(''intimacy'', 5), (''mental'', 0), (''speed'', - 2)]))])"
    by (simp add: decoder_simps mixed_response_def)
  have l2: "json_loads expecting_value zero_response =
      Inr (PyDict [(''stat_changes'', PyDict (map (\<lambda>(k, n). (k, PyInt n))
        [(''intimacy'', 0), (''mental'', 0)])), (''reason'', PyStr ''small talk'')])"
    by (simp add: decoder_simps zero_response_def)
  have o: "oracle_stub r (prompt_of example_user_message example_bot_reply example_state None)
      = Inr r" for r
    by (simp add: oracle_stub_def)
  from nonzero_entries_are_returned
      [where llm = "oracle_stub mixed_response" and loads = "json_loads expecting_value"
         and response = mixed_response
         and changes = "[(''intimacy'', 5), (''mental'', 0), (''speed'', - 2)]", OF o l1]
    nonzero_entries_are_returned
      [where llm = "oracle_stub zero_response" and loads = "json_loads expecting_value"
         and response = zero_response
         and changes = "[(''intimacy'', 0), (''mental'', 0)]", OF o l2]
  show ?thesis by simp
qed

text \<open>
  Absent fields: for every response that decodes to an object, an absent
  \<^verbatim>\<open>stat_changes\<close> gives the empty delta (and the call returns); an absent
  \<^verbatim>\<open>reason\<close> gives the generic reason whenever \<^verbatim>\<open>stat_changes\<close> is absent or is a
  mapping; the generic reason is not the failure reason. The second lemma runs
  \<^verbatim>\<open>{}\<close> and an object with \<^verbatim>\<open>stat_changes\<close> alone.
\<close>

lemma absent_fields_take_defaults:
  assumes "llm (prompt_of user_message bot_reply gs ctx) = Inr response"
    and "loads response = Inr (PyDict d)"
  shows "(map_of d ''stat_changes'' = None \<longrightarrow>
            analyze_conversation llm loads user_message bot_reply gs ctx =
              ([], Inr ([], case map_of d ''reason'' of None \<Rightarrow> PyStr default_reason
                                                    | Some r \<Rightarrow> r))) \<and>
         (map_of d ''reason'' = None \<and> map_of d ''stat_changes'' = None \<longrightarrow>
            analyze_conversation llm loads user_message bot_reply gs ctx =
              ([], Inr ([], PyStr default_reason))) \<and>
         (\<forall>changes. map_of d ''reason'' = None \<and>
              map_of d ''stat_changes'' = Some (PyDict changes) \<longrightarrow>
            analyze_conversation llm loads user_message bot_reply gs ctx =
              ([], Inr (filter (\<lambda>(k, v). ne_zero v) changes, PyStr default_reason))) \<and>
         default_reason \<noteq> failure_reason"
  using try_block_decoded [where llm = llm and loads = loads, OF assms] reasons_differ
  by (auto simp: analyze_conversation_def)

lemma absent_fields_example:
  "analyze_conversation (oracle_stub empty_response) (json_loads expecting_value)
       example_user_message example_bot_reply example_state None =
     ([], Inr ([], PyStr default_reason)) \<and>
   analyze_conversation (oracle_stub bare_response) (json_loads expecting_value)
       example_user_message example_bot_reply example_state None =
     ([], Inr ([(''mental'', PyInt 3)], PyStr default_reason))"
proof -
  have l1: "json_loads expecting_value empty_response = Inr (PyDict [])"
    by (simp add: decoder_simps empty_response_def)
  have l2: "json_loads expecting_value bare_response =
      Inr (PyDict [(''stat_changes'', PyDict [(''mental'', PyInt 3)])])"
    by (simp add: decoder_simps bare_response_def)
  have o: "oracle_stub r (prompt_of example_user_message example_bot_reply example_state None)
      = Inr r" for r
    by (simp add: oracle_stub_def)
  from absent_fields_take_defaults
      [where llm = "oracle_stub empty_response" and loads = "json_loads expecting_value"
         and response = empty_response, OF o l1]
    absent_fields_take_defaults
      [where llm = "oracle_stub bare_response" and loads = "json_loads expecting_value"
         and response = bare_response, OF o l2]
  show ?thesis by simp
qed


text \<open>
  C5, as stated: no entry of \<^verbatim>\<open>stat_changes\<close> is validated, and an entry with a
  non-integer value is returned as it is. The last part fails at
  \<^verbatim>\<open>{"stat_changes": {"power": 0.0}}\<close>: the float \<^verbatim>\<open>0.0\<close> is equal to \<^verbatim>\<open>0\<close>, so the
  entry is dropped and the delta is empty.
\<close>

theorem float_zero_counterexample:
  "json_loads expecting_value float_zero_response =
     Inr (PyDict [(''stat_changes'', PyDict [(''power'', PyFloat (Dec False 0 (- 1)))])]) \<and>
   analyze_conversation (oracle_stub float_zero_response) (json_loads expecting_value)
       example_user_message example_bot_reply example_state None =
     ([], Inr ([], PyStr default_reason))"
proof -
  have l: "json_loads expecting_value float_zero_response =
      Inr (PyDict [(''stat_changes'', PyDict [(''power'', PyFloat (Dec False 0 (- 1)))])])"
    by (simp add: decoder_simps float_zero_response_def)
  then show ?thesis
    by (simp add: analyze_conversation_def try_block_def oracle_stub_def)
qed

text \<open>
  C5, amended: the delta is \<^verbatim>\<open>stat_changes\<close> without the entries whose value is equal
  to \<^verbatim>\<open>0\<close>, and nothing else is checked: an entry is returned, key and value unchanged,
  exactly when its value is not the integer zero, not \<^verbatim>\<open>False\<close> and not a float zero,
  whatever its key, its magnitude and the type of its value.
\<close>

theorem stat_changes_are_not_validated:
  assumes "llm (prompt_of user_message bot_reply gs ctx) = Inr response"
    and "loads response = Inr (PyDict d)"
    and "map_of d ''stat_changes'' = Some (PyDict changes)"
  shows "analyze_conversation llm loads user_message bot_reply gs ctx =
           ([], Inr (filter (\<lambda>(k, v). ne_zero v) changes,
                     case map_of d ''reason'' of None \<Rightarrow> PyStr default_reason | Some r \<Rightarrow> r)) \<and>
         (\<forall>k v. ((k, v) \<in> set (filter (\<lambda>(k, v). ne_zero v) changes)) =
            ((k, v) \<in> set changes \<and> v \<noteq> PyInt 0 \<and> v \<noteq> PyBool False \<and>
             (\<forall>f. v = PyFloat f \<longrightarrow> \<not> float_eq_zero f)))"
proof -
  have a: "analyze_conversation llm loads user_message bot_reply gs ctx =
      ([], Inr (filter (\<lambda>(k, v). ne_zero v) changes,
                case map_of d ''reason'' of None \<Rightarrow> PyStr default_reason | Some r \<Rightarrow> r))"
    using try_block_decoded [where llm = llm and loads = loads, OF assms(1,2)] assms(3)
    by (simp add: analyze_conversation_def)
  have m: "((k, v) \<in> set (filter (\<lambda>(k, v). ne_zero v) changes)) =
      ((k, v) \<in> set changes \<and> v \<noteq> PyInt 0 \<and> v \<noteq> PyBool False \<and>
       (\<forall>f. v = PyFloat f \<longrightarrow> \<not> float_eq_zero f))" for k v
    using ne_zero_iff [of v] by simp
  from a m show ?thesis by blast
qed

theorem stat_changes_are_not_validated_witness:
  "analyze_conversation (oracle_stub loose_response) (json_loads expecting_value)
       example_user_message example_bot_reply example_state None =
     ([], Inr ([(''luck'', PyInt 99), (''mental'', PyStr ''high''),
                (''power'', PyFloat (Dec False 25 (- 1)))], PyStr default_reason))"
proof -
  have l: "json_loads expecting_value loose_response =
      Inr (PyDict [(''stat_changes'', PyDict [(''luck'', PyInt 99), (''mental'', PyStr ''high''),
        (''power'', PyFloat (Dec False 25 (- 1)))])])"
    by (simp add: decoder_simps loose_response_def)
  have o: "oracle_stub loose_response
      (prompt_of example_user_message example_bot_reply example_state None) = Inr loose_response"
    by (simp add: oracle_stub_def)
  have c: "map_of [(''stat_changes'', PyDict [(''luck'', PyInt 99), (''mental'', PyStr ''high''),
        (''power'', PyFloat (Dec False 25 (- 1)))])] ''stat_changes'' =
      Some (PyDict [(''luck'', PyInt 99), (''mental'', PyStr ''high''),
        (''power'', PyFloat (Dec False 25 (- 1)))])"
    by simp
  have f: "\<not> float_eq_zero (Dec False 25 (- 1))"
    by simp
  from stat_changes_are_not_validated
      [where llm = "oracle_stub loose_response" and loads = "json_loads expecting_value"
         and response = loose_response, OF o l c]
  have "analyze_conversation (oracle_stub loose_response) (json_loads expecting_value)
       example_user_message example_bot_reply example_state None =
     ([], Inr (filter (\<lambda>(k, v). ne_zero v) [(''luck'', PyInt 99), (''mental'', PyStr ''high''),
        (''power'', PyFloat (Dec False 25 (- 1)))],
        case map_of [(''stat_changes'', PyDict [(''luck'', PyInt 99), (''mental'', PyStr ''high''),
        (''power'', PyFloat (Dec False 25 (- 1)))])] ''reason'' of
          None \<Rightarrow> PyStr default_reason | Some r \<Rightarrow> r))"
    by (rule conjunct1)
  with f show ?thesis by (simp del: float_eq_zero.simps)
qed

text \<open>
  C8: in month 3 with the stats 30, 50, 60, 40 and 45, the message "You did great today,
  keep it up!" and the reply "Thanks, coach!", an oracle that answers
  \<^verbatim>\<open>{"stat_changes":{"intimacy":5,"mental":3,"stamina":0},"reason":"Positive encouragement"}\<close>
  makes the call return intimacy 5 and mental 3 with the reason "Positive encouragement",
  and nothing is printed.
\<close>

theorem example_turn:
  "analyze_conversation (oracle_stub example_response) (json_loads message)
       example_user_message example_bot_reply example_state None =
     ([], Inr ([(''intimacy'', PyInt 5), (''mental'', PyInt 3)],
               PyStr ''Positive encouragement''))"
proof -
  have l: "json_loads message example_response =
      Inr (PyDict [(''stat_changes'',
             PyDict [(''intimacy'', PyInt 5), (''mental'', PyInt 3), (''stamina'', PyInt 0)]),
           (''reason'', PyStr ''Positive encouragement'')])"
    by (simp add: decoder_simps example_response_def)
  then show ?thesis
    by (simp add: analyze_conversation_def try_block_def oracle_stub_def)
qed

text \<open>
  C10: an empty context string is the same as no context: the context block sent to the
  oracle is empty in both cases, so the human turn carries no context header, and the two
  calls agree in what they print and in their outcome.
\<close>

theorem empty_context_is_no_context:
  "context_info_of (Some []) = [] \<and>
   context_info_of None = [] \<and>
   prompt_of user_message bot_reply gs (Some []) = prompt_of user_message bot_reply gs None \<and>
   try_block llm loads user_message bot_reply gs (Some []) =
     try_block llm loads user_message bot_reply gs None \<and>
   analyze_conversation llm loads user_message bot_reply gs (Some []) =
     analyze_conversation llm loads user_message bot_reply gs None"
  by (simp add: context_info_of_def prompt_of_def try_block_def analyze_conversation_def)

end
